theory Spec2Isabelle
  imports Complex_Main "HOL-Library.Product_Lexorder"
begin

section \<open>Values of the tables\<close>

text \<open>
  The dashboard of \<^verbatim>\<open>healthcapacity.py\<close> reads two CSV tables, joins them, derives
  one ratio column and a few aggregates, and redraws three charts when a state is
  selected. The tables are modelled as lists of records (a data frame with a
  \<^verbatim>\<open>RangeIndex\<close>: the label of a row is its position).

  A \<^verbatim>\<open>float64\<close> cell is a finite value or one of the three special values of
  IEEE 754. Finite values are exact reals here: rounding and overflow of finite
  arithmetic are not part of the model, the special values and their propagation are.
\<close>

datatype float64 = Fin real | PInf | NInf | NaN

text \<open>The exceptions the modelled library calls raise.\<close>

datatype error =
  ValueError_argmax_empty
    \<comment> \<open>\<^verbatim>\<open>idxmax\<close> of an empty column\<close>
  | KeyError_nan
    \<comment> \<open>\<^verbatim>\<open>idxmax\<close> of an all-NaN column is NaN, which \<^verbatim>\<open>df.loc\<close> does not find\<close>
  | ValueError_sample_larger_than_population
    \<comment> \<open>\<^verbatim>\<open>sample(n)\<close> without replacement on fewer than \<open>n\<close> rows\<close>
  | ValueError_duplicate_entries
    \<comment> \<open>\<^verbatim>\<open>pivot\<close> on a table with a repeated (index, column) pair\<close>

datatype date = Date (dt_year: nat) (dt_month: nat) (dt_day: nat)

text \<open>
  The columns the program reads. The metric columns are counts (cases, admitted
  patients, beds), read by \<^verbatim>\<open>read_csv\<close> as integers.
\<close>

record case_row =
  c_date :: date
  c_state :: string
  c_cases_new :: nat

record hospital_row =
  h_date :: date
  h_state :: string
  h_beds :: nat
  h_beds_covid :: nat
  h_admitted_total :: nat

record merged_row =
  date :: date
  state :: string
  cases_new :: nat
  beds :: nat
  beds_covid :: nat
  admitted_total :: nat

record joined_row = merged_row +
  year :: nat
  month :: nat
  healthcare_capacity :: float64

record monthly_row =
  m_year :: nat
  m_month :: nat
  m_capacity :: float64

section \<open>Column arithmetic\<close>

text \<open>
  \<^verbatim>\<open>a / b\<close> on two integer columns is true division into \<^verbatim>\<open>float64\<close>: a zero
  divisor raises nothing, the cell becomes NaN (0/0) or an infinity.
\<close>

definition true_div :: "nat \<Rightarrow> nat \<Rightarrow> float64" where
  "true_div a b =
     (if b = 0 then (if a = 0 then NaN else PInf) else Fin (real a / real b))"

text \<open>\<^verbatim>\<open>x * 100\<close> on a \<^verbatim>\<open>float64\<close> cell.\<close>

fun times100 :: "float64 \<Rightarrow> float64" where
  "times100 (Fin v) = Fin (v * 100)"
| "times100 PInf = PInf"
| "times100 NInf = NInf"
| "times100 NaN = NaN"

text \<open>IEEE addition, as the accumulation of a mean uses it.\<close>

fun fadd :: "float64 \<Rightarrow> float64 \<Rightarrow> float64" where
  "fadd NaN y = NaN"
| "fadd x NaN = NaN"
| "fadd (Fin a) (Fin b) = Fin (a + b)"
| "fadd PInf NInf = NaN"
| "fadd NInf PInf = NaN"
| "fadd PInf y = PInf"
| "fadd x PInf = PInf"
| "fadd NInf y = NInf"
| "fadd x NInf = NInf"

text \<open>Division of an accumulated sum by a positive count of observations.\<close>

fun fdiv_count :: "float64 \<Rightarrow> nat \<Rightarrow> float64" where
  "fdiv_count (Fin s) n = Fin (s / real n)"
| "fdiv_count PInf n = PInf"
| "fdiv_count NInf n = NInf"
| "fdiv_count NaN n = NaN"

text \<open>IEEE \<open><\<close>: false as soon as one side is NaN.\<close>

fun fless :: "float64 \<Rightarrow> float64 \<Rightarrow> bool" where
  "fless (Fin a) (Fin b) = (a < b)"
| "fless (Fin a) PInf = True"
| "fless NInf (Fin b) = True"
| "fless NInf PInf = True"
| "fless x y = False"

fun isna :: "float64 \<Rightarrow> bool" where
  "isna NaN = True"
| "isna x = False"

section \<open>The join and the derived columns\<close>

text \<open>
  \<^verbatim>\<open>pd.merge(cases_state_df, hospital_df, on=['date','state'])\<close>: the default inner
  join. Each row of the left table, in its order, is paired with every row of the right
  table that has the same key.
\<close>

definition join_rows :: "case_row \<Rightarrow> hospital_row \<Rightarrow> merged_row" where
  "join_rows c h =
     \<lparr>date = c_date c, state = c_state c, cases_new = c_cases_new c,
      beds = h_beds h, beds_covid = h_beds_covid h,
      admitted_total = h_admitted_total h\<rparr>"

definition merge :: "case_row list \<Rightarrow> hospital_row list \<Rightarrow> merged_row list" where
  "merge cases hosp =
     concat (map (\<lambda>c. map (join_rows c)
                         (filter (\<lambda>h. h_date h = c_date c \<and> h_state h = c_state c) hosp))
                 cases)"

text \<open>
  Lines 30 to 34: \<^verbatim>\<open>year\<close> and \<^verbatim>\<open>month\<close> from the date, and
  \<^verbatim>\<open>healthcare_capacity = admitted_total / beds * 100\<close>, cell by cell.
\<close>

definition add_columns :: "merged_row \<Rightarrow> joined_row" where
  "add_columns r =
     \<lparr>date = date r, state = state r, cases_new = cases_new r, beds = beds r,
      beds_covid = beds_covid r, admitted_total = admitted_total r,
      year = dt_year (date r), month = dt_month (date r),
      healthcare_capacity = times100 (true_div (admitted_total r) (beds r))\<rparr>"

definition joined_table :: "case_row list \<Rightarrow> hospital_row list \<Rightarrow> joined_row list" where
  "joined_table cases hosp = map add_columns (merge cases hosp)"

section \<open>The summary scalars\<close>

text \<open>
  \<^verbatim>\<open>Series.max()\<close> skips NaN: the cells that are NaN are replaced by \<open>-inf\<close>, the
  maximum of the rest is taken by a scan, and a column with no cell that is not NaN
  (an empty one too) gives NaN.
\<close>

fun fill_neg_inf :: "float64 \<Rightarrow> float64" where
  "fill_neg_inf NaN = NInf"
| "fill_neg_inf x = x"

fun amax_loop :: "float64 list \<Rightarrow> float64 \<Rightarrow> float64" where
  "amax_loop [] best = best"
| "amax_loop (x # xs) best = (if fless best x then amax_loop xs x else amax_loop xs best)"

definition series_max :: "float64 list \<Rightarrow> float64" where
  "series_max col =
     (if list_all isna col then NaN
      else (case map fill_neg_inf col of [] \<Rightarrow> NaN | x # xs \<Rightarrow> amax_loop xs x))"

text \<open>
  \<^verbatim>\<open>Series.idxmax()\<close>: the position of the first occurrence of the maximum, found by
  the same scan with a strict comparison. On an empty column it raises; on an all-NaN
  column the label is NaN and \<^verbatim>\<open>df.loc\<close> raises.
\<close>

fun argmax_loop :: "float64 list \<Rightarrow> nat \<Rightarrow> float64 \<Rightarrow> nat \<Rightarrow> nat" where
  "argmax_loop [] i best bi = bi"
| "argmax_loop (x # xs) i best bi =
     (if fless best x then argmax_loop xs (Suc i) x i
      else argmax_loop xs (Suc i) best bi)"

definition idxmax :: "float64 list \<Rightarrow> error + nat" where
  "idxmax col =
     (case map fill_neg_inf col of
        [] \<Rightarrow> Inl ValueError_argmax_empty
      | x # xs \<Rightarrow> if list_all isna col then Inl KeyError_nan
                  else Inr (argmax_loop xs 1 x 0))"

text \<open>\<^verbatim>\<open>Series.sum()\<close> of an integer column: an accumulation from 0.\<close>

definition series_sum :: "nat list \<Rightarrow> nat" where
  "series_sum col = fold (\<lambda>v acc. acc + v) col 0"

text \<open>
  Lines 41 and 42: the quotient of the two column sums, times 100. The \<^verbatim>\<open>.max()\<close> of
  line 42 is taken of a scalar and returns it.
\<close>

definition covid_bed_share :: "joined_row list \<Rightarrow> float64" where
  "covid_bed_share d =
     times100 (true_div (series_sum (map beds_covid d)) (series_sum (map beds d)))"

section \<open>The monthly averages\<close>

text \<open>
  \<^verbatim>\<open>df.groupby(['year','month'])['healthcare_capacity'].mean().reset_index()\<close>: the
  group keys in ascending order, and for each the mean of the group's cells that are
  not NaN: one pass that counts and adds them, then one division; NaN when none was
  counted.
\<close>

definition group_keys :: "joined_row list \<Rightarrow> (nat \<times> nat) list" where
  "group_keys d = sort (remdups (map (\<lambda>r. (year r, month r)) d))"

fun mean_loop :: "float64 list \<Rightarrow> nat \<Rightarrow> float64 \<Rightarrow> float64" where
  "mean_loop [] nobs sumx = (if nobs = 0 then NaN else fdiv_count sumx nobs)"
| "mean_loop (v # vs) nobs sumx =
     (if isna v then mean_loop vs nobs sumx else mean_loop vs (Suc nobs) (fadd sumx v))"

definition group_mean :: "float64 list \<Rightarrow> float64" where
  "group_mean vals = mean_loop vals 0 (Fin 0)"

definition groupby_mean :: "joined_row list \<Rightarrow> monthly_row list" where
  "groupby_mean d =
     map (\<lambda>k. \<lparr>m_year = fst k, m_month = snd k,
               m_capacity = group_mean (map healthcare_capacity
                  (filter (\<lambda>r. (year r, month r) = k) d))\<rparr>)
         (group_keys d)"

text \<open>Line 47, \<^verbatim>\<open>fillna(0)\<close>: a NaN cell becomes 0, every other cell is kept.\<close>

fun fillna0 :: "float64 \<Rightarrow> float64" where
  "fillna0 NaN = Fin 0"
| "fillna0 x = x"

definition monthly_averages :: "joined_row list \<Rightarrow> monthly_row list" where
  "monthly_averages d = map (\<lambda>g. g\<lparr>m_capacity := fillna0 (m_capacity g)\<rparr>) (groupby_mean d)"

section \<open>Startup\<close>

text \<open>
  The module-level state that lines 27 to 47 build once, in the source's order: the
  first statement that raises ends the start.
\<close>

record app_state =
  df :: "joined_row list"
  max_capacity_state :: string
  max_capacity_value :: float64
  beds_utilized_by_covid :: float64
  heatmap_data :: "monthly_row list"

definition startup :: "case_row list \<Rightarrow> hospital_row list \<Rightarrow> error + app_state" where
  "startup cases hosp =
     (let d = joined_table cases hosp in
      case idxmax (map healthcare_capacity d) of
        Inl e \<Rightarrow> Inl e
      | Inr i \<Rightarrow>
          Inr \<lparr>df = d,
               max_capacity_state = state (d ! i),
               max_capacity_value = series_max (map healthcare_capacity d),
               beds_utilized_by_covid = covid_bed_share d,
               heatmap_data = monthly_averages d\<rparr>)"

section \<open>The chart callback\<close>

text \<open>
  What \<^verbatim>\<open>update_graph\<close> puts into its three figures. The constant styling (titles
  of the first and third chart, colours, grid lines) and the least-squares trend line
  that the plotting library fits to the sampled points are not part of the model.
\<close>

record line_chart =
  lc_date :: "date list"
  lc_cases_new :: "nat list"
  lc_healthcare_capacity :: "float64 list"

record scatter_plot =
  sp_points :: "(nat \<times> float64) list"
  sp_title :: string

record grid =
  g_index :: "nat list"
  g_columns :: "nat list"
  g_values :: "float64 list list"

text \<open>
  \<^verbatim>\<open>DataFrame.sample(n, random_state=1)\<close> draws without replacement: it raises when
  \<open>n\<close> exceeds the number of rows, and otherwise takes the rows at the first \<open>n\<close>
  positions of a permutation of the row positions drawn from the seeded generator. The
  generator is a parameter: \<open>perm k\<close> is the permutation it gives for \<open>k\<close> rows.
\<close>

definition sample_rows :: "(nat \<Rightarrow> nat list) \<Rightarrow> 'a list \<Rightarrow> nat \<Rightarrow> error + 'a list" where
  "sample_rows perm rows n =
     (if length rows < n then Inl ValueError_sample_larger_than_population
      else Inr (map (\<lambda>i. rows ! i) (take n (perm (length rows)))))"

text \<open>Lines 114 and 124: the rows of the selected state, and the sample of 100 of them.\<close>

definition filtered_rows :: "joined_row list \<Rightarrow> string \<Rightarrow> joined_row list" where
  "filtered_rows d selected_state = filter (\<lambda>r. state r = selected_state) d"

definition scatter_sample ::
  "(nat \<Rightarrow> nat list) \<Rightarrow> joined_row list \<Rightarrow> string \<Rightarrow> error + joined_row list" where
  "scatter_sample perm d selected_state =
     sample_rows perm (filtered_rows d selected_state) 100"

text \<open>
  \<^verbatim>\<open>heatmap_data.pivot(index='year', columns='month', values='healthcare_capacity')\<close>:
  it raises when a (year, month) pair occurs twice; otherwise the years label the
  rows and the months the columns, both ascending, and a pair without a row is NaN.
\<close>

definition pivot :: "monthly_row list \<Rightarrow> error + grid" where
  "pivot t =
     (if \<not> distinct (map (\<lambda>g. (m_year g, m_month g)) t)
      then Inl ValueError_duplicate_entries
      else
        (let ys = sort (remdups (map m_year t));
             ms = sort (remdups (map m_month t))
         in Inr \<lparr>g_index = ys, g_columns = ms,
                 g_values =
                   map (\<lambda>y. map (\<lambda>m.
                          (case find (\<lambda>g. m_year g = y \<and> m_month g = m) t of
                             None \<Rightarrow> NaN
                           | Some g \<Rightarrow> m_capacity g)) ms) ys\<rparr>))"

text \<open>
  The callback, in the source's order. It reads the module-level state and returns it
  beside its result, so that what it leaves behind can be stated.
\<close>

definition update_graph ::
  "(nat \<Rightarrow> nat list) \<Rightarrow> app_state \<Rightarrow> string \<Rightarrow>
     (error + line_chart \<times> scatter_plot \<times> grid) \<times> app_state" where
  "update_graph perm st selected_state =
     (let filtered_df = filtered_rows (df st) selected_state;
          line = \<lparr>lc_date = map date filtered_df,
                  lc_cases_new = map cases_new filtered_df,
                  lc_healthcare_capacity = map healthcare_capacity filtered_df\<rparr>
      in case scatter_sample perm (df st) selected_state of
           Inl e \<Rightarrow> (Inl e, st)
         | Inr sampled \<Rightarrow>
             (let scatter =
                    \<lparr>sp_points = map (\<lambda>r. (cases_new r, healthcare_capacity r)) sampled,
                     sp_title = ''Healthcare Capacity vs New Cases in '' @ selected_state\<rparr>
              in case pivot (heatmap_data st) of
                   Inl e \<Rightarrow> (Inl e, st)
                 | Inr heatmap \<Rightarrow> (Inr (line, scatter, heatmap), st)))"

section \<open>Definitions in the words of the specification\<close>

text \<open>
  The arithmetic mean of the defined (not NaN) cells of a group: their sum divided by
  their number, undefined (NaN) when the group has no defined cell; and the value the
  monthly table is said to hold, 0 where that mean is undefined.
\<close>

definition arithmetic_mean :: "float64 list \<Rightarrow> float64" where
  "arithmetic_mean xs =
     (if xs = [] then NaN else fdiv_count (foldl fadd (Fin 0) xs) (length xs))"

definition mean_or_zero :: "float64 list \<Rightarrow> float64" where
  "mean_or_zero vals = fillna0 (arithmetic_mean (filter (\<lambda>v. \<not> isna v) vals))"


section \<open>Example tables\<close>

text \<open>
  Two small source tables used to run the definitions: three (date, state) pairs occur
  in both, Johor only among the cases and Kedah only among the hospital rows. The
  second and the third joined row tie for the largest ratio.
\<close>

definition example_cases :: "case_row list" where
  "example_cases =
     [\<lparr>c_date = Date 2021 3 1, c_state = ''Selangor'', c_cases_new = 7\<rparr>,
      \<lparr>c_date = Date 2021 4 1, c_state = ''Selangor'', c_cases_new = 9\<rparr>,
      \<lparr>c_date = Date 2021 3 1, c_state = ''Penang'', c_cases_new = 3\<rparr>,
      \<lparr>c_date = Date 2021 3 1, c_state = ''Johor'', c_cases_new = 4\<rparr>]"

definition example_hospital :: "hospital_row list" where
  "example_hospital =
     [\<lparr>h_date = Date 2021 3 1, h_state = ''Selangor'', h_beds = 200, h_beds_covid = 40,
       h_admitted_total = 50\<rparr>,
      \<lparr>h_date = Date 2021 3 1, h_state = ''Kedah'', h_beds = 80, h_beds_covid = 8,
       h_admitted_total = 20\<rparr>,
      \<lparr>h_date = Date 2021 4 1, h_state = ''Selangor'', h_beds = 100, h_beds_covid = 10,
       h_admitted_total = 80\<rparr>,
      \<lparr>h_date = Date 2021 3 1, h_state = ''Penang'', h_beds = 50, h_beds_covid = 5,
       h_admitted_total = 40\<rparr>]"

definition example_df :: "joined_row list" where
  "example_df =
     [\<lparr>date = Date 2021 3 1, state = ''Selangor'', cases_new = 7, beds = 200,
       beds_covid = 40, admitted_total = 50, year = 2021, month = 3,
       healthcare_capacity = Fin 25\<rparr>,
      \<lparr>date = Date 2021 4 1, state = ''Selangor'', cases_new = 9, beds = 100,
       beds_covid = 10, admitted_total = 80, year = 2021, month = 4,
       healthcare_capacity = Fin 80\<rparr>,
      \<lparr>date = Date 2021 3 1, state = ''Penang'', cases_new = 3, beds = 50,
       beds_covid = 5, admitted_total = 40, year = 2021, month = 3,
       healthcare_capacity = Fin 80\<rparr>]"

definition example_state :: app_state where
  "example_state =
     \<lparr>df = example_df, max_capacity_state = ''Selangor'', max_capacity_value = Fin 80,
      beds_utilized_by_covid = Fin (110 / 7),
      heatmap_data = [\<lparr>m_year = 2021, m_month = 3, m_capacity = Fin (105 / 2)\<rparr>,
                      \<lparr>m_year = 2021, m_month = 4, m_capacity = Fin 80\<rparr>]\<rparr>"

text \<open>
  A state with three joined rows of one state, and a state with a hundred rows for each
  of two states (the smallest tables on which the callback can sample 100 rows).
\<close>

definition three_row_state :: app_state where
  "three_row_state =
     \<lparr>df = [\<lparr>date = Date 2021 5 1, state = ''Perlis'', cases_new = 2, beds = 10,
              beds_covid = 1, admitted_total = 5, year = 2021, month = 5,
              healthcare_capacity = Fin 50\<rparr>,
             \<lparr>date = Date 2021 5 2, state = ''Perlis'', cases_new = 4, beds = 10,
              beds_covid = 1, admitted_total = 6, year = 2021, month = 5,
              healthcare_capacity = Fin 60\<rparr>,
             \<lparr>date = Date 2021 5 3, state = ''Perlis'', cases_new = 6, beds = 10,
              beds_covid = 1, admitted_total = 7, year = 2021, month = 5,
              healthcare_capacity = Fin 70\<rparr>],
      max_capacity_state = ''Perlis'', max_capacity_value = Fin 70,
      beds_utilized_by_covid = Fin 10,
      heatmap_data = [\<lparr>m_year = 2021, m_month = 5, m_capacity = Fin 60\<rparr>]\<rparr>"

definition selangor_row :: joined_row where
  "selangor_row =
     \<lparr>date = Date 2021 3 1, state = ''Selangor'', cases_new = 7, beds = 200,
      beds_covid = 40, admitted_total = 50, year = 2021, month = 3,
      healthcare_capacity = Fin 25\<rparr>"

definition penang_row :: joined_row where
  "penang_row =
     \<lparr>date = Date 2021 3 1, state = ''Penang'', cases_new = 3, beds = 50,
      beds_covid = 5, admitted_total = 40, year = 2021, month = 3,
      healthcare_capacity = Fin 80\<rparr>"

definition busy_state :: app_state where
  "busy_state =
     \<lparr>df = replicate 100 selangor_row @ replicate 100 penang_row,
      max_capacity_state = ''Penang'', max_capacity_value = Fin 80,
      beds_utilized_by_covid = Fin 18,
      heatmap_data = [\<lparr>m_year = 2021, m_month = 3, m_capacity = Fin (105 / 2)\<rparr>]\<rparr>"

text \<open>
  Source tables in which two of the three joined rows have no beds and no admitted
  patients, one of them alone in its month.
\<close>

definition closed_ward_cases :: "case_row list" where
  "closed_ward_cases =
     [\<lparr>c_date = Date 2021 3 1, c_state = ''Perlis'', c_cases_new = 1\<rparr>,
      \<lparr>c_date = Date 2021 3 1, c_state = ''Kedah'', c_cases_new = 2\<rparr>,
      \<lparr>c_date = Date 2021 4 1, c_state = ''Perlis'', c_cases_new = 3\<rparr>]"

definition closed_ward_hospital :: "hospital_row list" where
  "closed_ward_hospital =
     [\<lparr>h_date = Date 2021 3 1, h_state = ''Perlis'', h_beds = 0, h_beds_covid = 0,
       h_admitted_total = 0\<rparr>,
      \<lparr>h_date = Date 2021 3 1, h_state = ''Kedah'', h_beds = 100, h_beds_covid = 20,
       h_admitted_total = 50\<rparr>,
      \<lparr>h_date = Date 2021 4 1, h_state = ''Perlis'', h_beds = 0, h_beds_covid = 0,
       h_admitted_total = 0\<rparr>]"

definition closed_ward_df :: "joined_row list" where
  "closed_ward_df =
     [\<lparr>date = Date 2021 3 1, state = ''Perlis'', cases_new = 1, beds = 0,
       beds_covid = 0, admitted_total = 0, year = 2021, month = 3,
       healthcare_capacity = NaN\<rparr>,
      \<lparr>date = Date 2021 3 1, state = ''Kedah'', cases_new = 2, beds = 100,
       beds_covid = 20, admitted_total = 50, year = 2021, month = 3,
       healthcare_capacity = Fin 50\<rparr>,
      \<lparr>date = Date 2021 4 1, state = ''Perlis'', cases_new = 3, beds = 0,
       beds_covid = 0, admitted_total = 0, year = 2021, month = 4,
       healthcare_capacity = NaN\<rparr>]"

section \<open>The example tables, evaluated\<close>

lemma example_joined_table: "joined_table example_cases example_hospital = example_df"
  by (simp add: joined_table_def merge_def join_rows_def add_columns_def true_div_def
      example_cases_def example_hospital_def example_df_def)

lemma example_idxmax: "idxmax (map healthcare_capacity example_df) = Inr 1"
  by (simp add: example_df_def idxmax_def)

lemma example_series_max: "series_max (map healthcare_capacity example_df) = Fin 80"
  by (simp add: example_df_def series_max_def)

lemma example_covid_bed_share: "covid_bed_share example_df = Fin (110 / 7)"
  by (simp add: example_df_def covid_bed_share_def series_sum_def true_div_def)

lemma example_group_keys: "group_keys example_df = [(2021, 3), (2021, 4)]"
  by (simp add: example_df_def group_keys_def)

lemma example_monthly_averages:
  "monthly_averages example_df =
     [\<lparr>m_year = 2021, m_month = 3, m_capacity = Fin (105 / 2)\<rparr>,
      \<lparr>m_year = 2021, m_month = 4, m_capacity = Fin 80\<rparr>]"
  by (simp add: monthly_averages_def groupby_mean_def example_group_keys)
     (simp add: example_df_def group_mean_def)

lemma example_startup: "startup example_cases example_hospital = Inr example_state"
  by (simp add: startup_def example_joined_table example_idxmax example_series_max
      example_covid_bed_share example_monthly_averages)
     (simp add: example_state_def example_df_def)

section \<open>What a successful start stores\<close>

lemma startup_fields:
  assumes "startup cases hosp = Inr st"
  shows "df st = joined_table cases hosp"
    and "max_capacity_value st = series_max (map healthcare_capacity (df st))"
    and "beds_utilized_by_covid st = covid_bed_share (df st)"
    and "heatmap_data st = monthly_averages (df st)"
    and "\<exists>i. idxmax (map healthcare_capacity (df st)) = Inr i
           \<and> max_capacity_state st = state (df st ! i)"
  using assms by (auto simp: startup_def Let_def split: sum.splits)

lemma joined_table_capacity:
  "r \<in> set (joined_table cases hosp) \<Longrightarrow>
     healthcare_capacity r = times100 (true_div (admitted_total r) (beds r))"
  by (auto simp: joined_table_def add_columns_def)

section \<open>The inner join\<close>

lemma filter_unique_key:
  "distinct (map f xs) \<Longrightarrow> x \<in> set xs \<Longrightarrow> filter (\<lambda>y. f y = f x) xs = [x]"
proof (induction xs)
  case Nil
  then show ?case by simp
next
  case (Cons a xs)
  show ?case
  proof (cases "a = x")
    case True
    with Cons.prems have "\<forall>y\<in>set xs. f y \<noteq> f x" by (auto simp: image_iff)
    then have "filter (\<lambda>y. f y = f x) xs = []" by (simp add: filter_empty_conv)
    with True show ?thesis by simp
  next
    case False
    with Cons.prems have "x \<in> set xs" and "f a \<noteq> f x" by (auto simp: image_iff)
    with Cons show ?thesis by simp
  qed
qed

lemma merge_Cons:
  "merge (c # cs) hosp =
     map (join_rows c) (filter (\<lambda>h. h_date h = c_date c \<and> h_state h = c_state c) hosp)
       @ merge cs hosp"
  by (simp add: merge_def)

lemma merge_Nil: "merge [] hosp = []"
  by (simp add: merge_def)

lemma merge_no_key:
  "\<forall>c\<in>set cs. \<not> (c_date c = d \<and> c_state c = s) \<Longrightarrow>
     filter (\<lambda>m. date m = d \<and> state m = s) (merge cs hosp) = []"
  by (induction cs) (auto simp: merge_Cons merge_Nil filter_empty_conv join_rows_def)

lemma merge_key:
  "distinct (map (\<lambda>c. (c_date c, c_state c)) cs) \<Longrightarrow> c \<in> set cs \<Longrightarrow>
     filter (\<lambda>m. date m = c_date c \<and> state m = c_state c) (merge cs hosp) =
       map (join_rows c) (filter (\<lambda>h. h_date h = c_date c \<and> h_state h = c_state c) hosp)"
proof (induction cs)
  case Nil
  then show ?case by simp
next
  case (Cons a cs)
  show ?case
  proof (cases "a = c")
    case True
    with Cons.prems have "\<forall>c'\<in>set cs. \<not> (c_date c' = c_date c \<and> c_state c' = c_state c)"
      by (auto simp: image_iff)
    then have "filter (\<lambda>m. date m = c_date c \<and> state m = c_state c) (merge cs hosp) = []"
      by (rule merge_no_key)
    moreover have "filter (\<lambda>m. date m = c_date c \<and> state m = c_state c)
        (map (join_rows c) (filter (\<lambda>h. h_date h = c_date c \<and> h_state h = c_state c) hosp))
      = map (join_rows c) (filter (\<lambda>h. h_date h = c_date c \<and> h_state h = c_state c) hosp)"
      by (simp add: filter_map o_def join_rows_def)
    ultimately show ?thesis using True by (simp add: merge_Cons)
  next
    case False
    with Cons.prems have in_cs: "c \<in> set cs"
      and diff: "\<not> (c_date a = c_date c \<and> c_state a = c_state c)"
      by (auto simp: image_iff)
    have "filter (\<lambda>m. date m = c_date c \<and> state m = c_state c)
        (map (join_rows a) (filter (\<lambda>h. h_date h = c_date a \<and> h_state h = c_state a) hosp)) = []"
      using diff by (auto simp: filter_empty_conv join_rows_def)
    with Cons in_cs show ?thesis by (simp add: merge_Cons)
  qed
qed

lemma merge_member:
  "m \<in> set (merge cs hosp) \<longleftrightarrow>
     (\<exists>c\<in>set cs. \<exists>h\<in>set hosp. h_date h = c_date c \<and> h_state h = c_state c \<and> m = join_rows c h)"
  by (auto simp: merge_def)

text \<open>
  C3. When neither source table repeats a (date, state) pair: for a case row and a
  hospital row with the same pair, the joined table has exactly one record with that
  pair, built from these two rows; and every joined record has its pair and its case
  column in a case row and its pair and its hospital columns in a hospital row, so a
  row whose pair is missing from the other table contributes nothing.
\<close>

theorem inner_join_one_record:
  assumes dc: "distinct (map (\<lambda>c. (c_date c, c_state c)) cases)"
    and dh: "distinct (map (\<lambda>h. (h_date h, h_state h)) hosp)"
  shows "(\<forall>c\<in>set cases. \<forall>h\<in>set hosp. c_date c = h_date h \<and> c_state c = h_state h \<longrightarrow>
            filter (\<lambda>r. date r = c_date c \<and> state r = c_state c) (joined_table cases hosp)
              = [add_columns (join_rows c h)])
       \<and> (\<forall>r\<in>set (joined_table cases hosp).
            (\<exists>c\<in>set cases. c_date c = date r \<and> c_state c = state r \<and> c_cases_new c = cases_new r)
          \<and> (\<exists>h\<in>set hosp. h_date h = date r \<and> h_state h = state r \<and> h_beds h = beds r
                \<and> h_beds_covid h = beds_covid r \<and> h_admitted_total h = admitted_total r))"
proof (intro conjI ballI impI)
  fix c h
  assume c: "c \<in> set cases" and h: "h \<in> set hosp"
    and k: "c_date c = h_date h \<and> c_state c = h_state h"
  have "filter (\<lambda>h'. (h_date h', h_state h') = (h_date h, h_state h)) hosp = [h]"
    using dh h by (rule filter_unique_key)
  then have hs: "filter (\<lambda>h'. h_date h' = c_date c \<and> h_state h' = c_state c) hosp = [h]"
    using k by simp
  have "filter (\<lambda>r. date r = c_date c \<and> state r = c_state c) (joined_table cases hosp)
      = map add_columns (filter (\<lambda>m. date m = c_date c \<and> state m = c_state c) (merge cases hosp))"
    by (simp add: joined_table_def filter_map o_def add_columns_def)
  also have "\<dots> = map add_columns (map (join_rows c) [h])"
    using merge_key [OF dc c, of hosp] hs by simp
  finally show "filter (\<lambda>r. date r = c_date c \<and> state r = c_state c) (joined_table cases hosp)
      = [add_columns (join_rows c h)]" by simp
next
  fix r
  assume "r \<in> set (joined_table cases hosp)"
  then obtain m where m: "m \<in> set (merge cases hosp)" and r: "r = add_columns m"
    by (auto simp: joined_table_def)
  from m obtain c h where ch: "c \<in> set cases" "h \<in> set hosp"
    "h_date h = c_date c" "h_state h = c_state c" "m = join_rows c h"
    by (auto simp: merge_member)
  show "\<exists>c\<in>set cases. c_date c = date r \<and> c_state c = state r \<and> c_cases_new c = cases_new r"
    using ch r by (intro bexI [of _ c]) (simp_all add: add_columns_def join_rows_def)
  show "\<exists>h\<in>set hosp. h_date h = date r \<and> h_state h = state r \<and> h_beds h = beds r
                \<and> h_beds_covid h = beds_covid r \<and> h_admitted_total h = admitted_total r"
    using ch r by (intro bexI [of _ h]) (simp_all add: add_columns_def join_rows_def)
qed

theorem inner_join_one_record_witness:
  "distinct (map (\<lambda>c. (c_date c, c_state c)) example_cases)
   \<and> distinct (map (\<lambda>h. (h_date h, h_state h)) example_hospital)
   \<and> filter (\<lambda>r. date r = Date 2021 3 1 \<and> state r = ''Penang'')
        (joined_table example_cases example_hospital)
       = [\<lparr>date = Date 2021 3 1, state = ''Penang'', cases_new = 3, beds = 50,
           beds_covid = 5, admitted_total = 40, year = 2021, month = 3,
           healthcare_capacity = Fin 80\<rparr>]
   \<and> filter (\<lambda>r. state r = ''Johor'' \<or> state r = ''Kedah'')
        (joined_table example_cases example_hospital) = []"
proof -
  let ?c = "\<lparr>c_date = Date 2021 3 1, c_state = ''Penang'', c_cases_new = 3\<rparr>"
  let ?h = "\<lparr>h_date = Date 2021 3 1, h_state = ''Penang'', h_beds = 50, h_beds_covid = 5,
             h_admitted_total = 40\<rparr>"
  have dc: "distinct (map (\<lambda>c. (c_date c, c_state c)) example_cases)"
    by (simp add: example_cases_def)
  have dh: "distinct (map (\<lambda>h. (h_date h, h_state h)) example_hospital)"
    by (simp add: example_hospital_def)
  have c: "?c \<in> set example_cases"
    by (simp add: example_cases_def)
  have h: "?h \<in> set example_hospital"
    by (simp add: example_hospital_def)
  from inner_join_one_record [OF dc dh] c h
  have "c_date ?c = h_date ?h \<and> c_state ?c = h_state ?h \<longrightarrow>
      filter (\<lambda>r. date r = c_date ?c \<and> state r = c_state ?c)
        (joined_table example_cases example_hospital) = [add_columns (join_rows ?c ?h)]"
    by blast
  then have one: "filter (\<lambda>r. date r = Date 2021 3 1 \<and> state r = ''Penang'')
        (joined_table example_cases example_hospital)
       = [\<lparr>date = Date 2021 3 1, state = ''Penang'', cases_new = 3, beds = 50,
           beds_covid = 5, admitted_total = 40, year = 2021, month = 3,
           healthcare_capacity = Fin 80\<rparr>]"
    by (simp add: add_columns_def join_rows_def true_div_def)
  have none: "filter (\<lambda>r. state r = ''Johor'' \<or> state r = ''Kedah'')
        (joined_table example_cases example_hospital) = []"
    by (simp add: example_joined_table) (simp add: example_df_def)
  from dc dh one none show ?thesis by (intro conjI)
qed

section \<open>The capacity ratio\<close>



section \<open>The share of COVID beds\<close>




section \<open>The callback and the module-level state\<close>



section \<open>The largest capacity ratio\<close>





lemma fless_not_nan: "fless x y \<Longrightarrow> \<not> isna x \<and> \<not> isna y"
  by (cases x; cases y) auto





lemma fill_neg_inf_id: "\<not> isna v \<Longrightarrow> fill_neg_inf v = v"
  by (cases v) auto

lemma idxmax_Inr:
  "idxmax col = Inr k \<longleftrightarrow>
     (\<not> list_all isna col \<and> col \<noteq> []
      \<and> k = argmax_loop (tl (map fill_neg_inf col)) 1 (hd (map fill_neg_inf col)) 0)"
  by (cases col) (auto simp: idxmax_def)

lemma series_max_amax:
  "\<not> list_all isna col \<Longrightarrow>
     series_max col = amax_loop (tl (map fill_neg_inf col)) (hd (map fill_neg_inf col))"
  by (cases col) (auto simp: series_max_def)




text \<open>The start succeeds as soon as one ratio of the joined table is not NaN.\<close>

lemma startup_succeeds:
  assumes "\<exists>r\<in>set (joined_table cases hosp). \<not> isna (healthcare_capacity r)"
  shows "\<exists>st. startup cases hosp = Inr st"
proof -
  let ?col = "map healthcare_capacity (joined_table cases hosp)"
  from assms have "\<not> list_all isna ?col" and "?col \<noteq> []"
    by (auto simp: list_all_iff)
  then have "\<exists>k. idxmax ?col = Inr k" by (simp add: idxmax_Inr)
  then show ?thesis by (auto simp: startup_def Let_def)
qed


section \<open>The monthly table\<close>

lemma mean_loop_eq:
  "mean_loop vs nobs sumx =
     (if nobs + length (filter (\<lambda>v. \<not> isna v) vs) = 0 then NaN
      else fdiv_count (foldl fadd sumx (filter (\<lambda>v. \<not> isna v) vs))
             (nobs + length (filter (\<lambda>v. \<not> isna v) vs)))"
  by (induction vs arbitrary: nobs sumx) auto

lemma group_mean_eq: "group_mean vals = arithmetic_mean (filter (\<lambda>v. \<not> isna v) vals)"
  by (simp add: group_mean_def mean_loop_eq arithmetic_mean_def)

lemma fillna0_not_nan: "\<not> isna (fillna0 v)"
  by (cases v) auto

lemma monthly_averages_keys:
  "map (\<lambda>g. (m_year g, m_month g)) (monthly_averages d) = group_keys d"
  by (simp add: monthly_averages_def groupby_mean_def o_def)

lemma group_keys_distinct: "distinct (group_keys d)"
  by (simp add: group_keys_def)

lemma group_keys_set: "set (group_keys d) = set (map (\<lambda>r. (year r, month r)) d)"
  by (simp add: group_keys_def)

lemma monthly_averages_value:
  assumes "g \<in> set (monthly_averages d)"
  shows "m_capacity g =
           mean_or_zero (map healthcare_capacity
             (filter (\<lambda>r. year r = m_year g \<and> month r = m_month g) d))"
proof -
  from assms obtain k where "k \<in> set (group_keys d)"
    and g: "g = \<lparr>m_year = fst k, m_month = snd k,
                 m_capacity = fillna0 (group_mean (map healthcare_capacity
                    (filter (\<lambda>r. (year r, month r) = k) d)))\<rparr>"
    by (auto simp: monthly_averages_def groupby_mean_def)
  have "filter (\<lambda>r. (year r, month r) = k) d
      = filter (\<lambda>r. year r = fst k \<and> month r = snd k) d"
    by (rule filter_cong) auto
  then show ?thesis unfolding g by (simp add: mean_or_zero_def group_mean_eq)
qed

lemma foldl_fadd_Fin: "foldl fadd (Fin a) (map Fin xs) = Fin (a + sum_list xs)"
  by (induction xs arbitrary: a) (auto simp: algebra_simps)

lemma mean_or_zero_finite:
  "xs \<noteq> [] \<Longrightarrow> mean_or_zero (map Fin xs) = Fin (sum_list xs / real (length xs))"
  by (simp add: mean_or_zero_def arithmetic_mean_def filter_map o_def foldl_fadd_Fin)

lemma mean_or_zero_all_nan: "list_all isna vals \<Longrightarrow> mean_or_zero vals = Fin 0"
proof -
  assume "list_all isna vals"
  then have "filter (\<lambda>v. \<not> isna v) vals = []"
    by (simp add: filter_empty_conv list_all_iff)
  then show ?thesis by (simp add: mean_or_zero_def arithmetic_mean_def)
qed

text \<open>
  C6. The monthly table has exactly one row per distinct (year, month) pair of the
  joined records. The value of a row is the arithmetic mean of the capacity ratios of
  the pair's records, taken over the ratios that are not NaN, with 0 in place of an
  undefined mean; it is never NaN. For a group of finite ratios that value is their
  sum divided by their number, and for a group whose ratios are all NaN it is
  exactly 0.
\<close>

theorem monthly_average_table:
  "distinct (map (\<lambda>g. (m_year g, m_month g)) (monthly_averages d))
   \<and> set (map (\<lambda>g. (m_year g, m_month g)) (monthly_averages d))
       = set (map (\<lambda>r. (year r, month r)) d)
   \<and> (\<forall>g\<in>set (monthly_averages d).
        m_capacity g = mean_or_zero (map healthcare_capacity
           (filter (\<lambda>r. year r = m_year g \<and> month r = m_month g) d))
      \<and> \<not> isna (m_capacity g))
   \<and> (\<forall>xs. xs \<noteq> [] \<longrightarrow> mean_or_zero (map Fin xs) = Fin (sum_list xs / real (length xs)))
   \<and> (\<forall>vals. list_all isna vals \<longrightarrow> mean_or_zero vals = Fin 0)"
proof (intro conjI ballI allI impI)
  show "distinct (map (\<lambda>g. (m_year g, m_month g)) (monthly_averages d))"
    by (simp only: monthly_averages_keys group_keys_distinct)
  show "set (map (\<lambda>g. (m_year g, m_month g)) (monthly_averages d))
       = set (map (\<lambda>r. (year r, month r)) d)"
    by (simp only: monthly_averages_keys group_keys_set)
next
  fix g assume g: "g \<in> set (monthly_averages d)"
  show "m_capacity g = mean_or_zero (map healthcare_capacity
           (filter (\<lambda>r. year r = m_year g \<and> month r = m_month g) d))"
    using g by (rule monthly_averages_value)
  then show "\<not> isna (m_capacity g)"
    by (simp add: mean_or_zero_def fillna0_not_nan)
next
  fix xs :: "real list" assume "xs \<noteq> []"
  then show "mean_or_zero (map Fin xs) = Fin (sum_list xs / real (length xs))"
    by (rule mean_or_zero_finite)
next
  fix vals assume "list_all isna vals"
  then show "mean_or_zero vals = Fin 0" by (rule mean_or_zero_all_nan)
qed

theorem monthly_average_table_witness:
  "monthly_averages example_df =
     [\<lparr>m_year = 2021, m_month = 3, m_capacity = Fin (105 / 2)\<rparr>,
      \<lparr>m_year = 2021, m_month = 4, m_capacity = Fin 80\<rparr>]
   \<and> set (map (\<lambda>r. (year r, month r)) example_df) = {(2021, 3), (2021, 4)}
   \<and> mean_or_zero (map healthcare_capacity
        (filter (\<lambda>r. year r = 2021 \<and> month r = 3) example_df)) = Fin ((25 + 80) / 2)
   \<and> mean_or_zero [NaN, NaN] = Fin 0"
proof -
  have a: "monthly_averages example_df =
     [\<lparr>m_year = 2021, m_month = 3, m_capacity = Fin (105 / 2)\<rparr>,
      \<lparr>m_year = 2021, m_month = 4, m_capacity = Fin 80\<rparr>]"
    by (rule example_monthly_averages)
  note t = monthly_average_table [of example_df]
  from t have b: "set (map (\<lambda>r. (year r, month r)) example_df) = {(2021, 3), (2021, 4)}"
    unfolding a by auto
  from t have "\<forall>g\<in>set (monthly_averages example_df).
        m_capacity g = mean_or_zero (map healthcare_capacity
           (filter (\<lambda>r. year r = m_year g \<and> month r = m_month g) example_df))"
    by blast
  then have c: "mean_or_zero (map healthcare_capacity
        (filter (\<lambda>r. year r = 2021 \<and> month r = 3) example_df)) = Fin ((25 + 80) / 2)"
    unfolding a by simp
  from t have "list_all isna [NaN, NaN] \<longrightarrow> mean_or_zero [NaN, NaN] = Fin 0"
    by blast
  then have e: "mean_or_zero [NaN, NaN] = Fin 0" by simp
  from a b c e show ?thesis by (intro conjI)
qed

section \<open>The pivot of the monthly table\<close>

lemma pivot_monthly_averages: "\<exists>g. pivot (monthly_averages d) = Inr g"
  by (simp add: pivot_def Let_def monthly_averages_keys group_keys_distinct)

lemma scatter_sample_error:
  "scatter_sample perm d s = Inl e \<Longrightarrow> e = ValueError_sample_larger_than_population"
  by (auto simp: scatter_sample_def sample_rows_def split: if_splits)

text \<open>
  C10. The monthly table built at startup by the group-by has no repeated
  (year, month) pair, so its pivot to a year by month grid succeeds, and for every
  selected state the callback never raises the duplicate-entry error.
\<close>

theorem pivot_never_duplicate:
  assumes "startup cases hosp = Inr st"
  shows "(\<exists>g. pivot (heatmap_data st) = Inr g)
       \<and> fst (update_graph perm st selected_state) \<noteq> Inl ValueError_duplicate_entries"
proof -
  from startup_fields(4) [OF assms] pivot_monthly_averages [of "df st"]
  obtain g where g: "pivot (heatmap_data st) = Inr g" by auto
  have "fst (update_graph perm st selected_state) \<noteq> Inl ValueError_duplicate_entries"
    using g
    by (auto simp: update_graph_def Let_def split: sum.splits dest: scatter_sample_error)
  with g show ?thesis by blast
qed

theorem pivot_never_duplicate_witness:
  "startup example_cases example_hospital = Inr example_state
   \<and> pivot (heatmap_data example_state)
       = Inr \<lparr>g_index = [2021], g_columns = [3, 4], g_values = [[Fin (105 / 2), Fin 80]]\<rparr>
   \<and> fst (update_graph (upt 0) example_state ''Selangor'')
       = Inl ValueError_sample_larger_than_population"
proof -
  note t = pivot_never_duplicate [OF example_startup, of "upt 0" "''Selangor''"]
  have p: "pivot (heatmap_data example_state)
       = Inr \<lparr>g_index = [2021], g_columns = [3, 4], g_values = [[Fin (105 / 2), Fin 80]]\<rparr>"
    by (simp add: example_state_def pivot_def)
  have "scatter_sample (upt 0) (df example_state) ''Selangor''
       = Inl ValueError_sample_larger_than_population"
    by (simp add: scatter_sample_def sample_rows_def filtered_rows_def
        example_state_def example_df_def)
  then have u: "fst (update_graph (upt 0) example_state ''Selangor'')
       = Inl ValueError_sample_larger_than_population"
    by (simp add: update_graph_def Let_def)
  from t example_startup p u show ?thesis by (intro conjI)
qed

section \<open>The scatter sample\<close>

lemma perm_length:
  assumes "distinct xs" and "set xs = {0..<k}"
  shows "length xs = k"
proof -
  from assms(1) have "card (set xs) = length xs" by (rule distinct_card)
  with assms(2) show ?thesis by simp
qed

lemma sample_rows_size:
  assumes "\<forall>k. distinct (perm k) \<and> set (perm k) = {0..<k}" and "n \<le> length rows"
  shows "\<exists>ys. sample_rows perm rows n = Inr ys \<and> length ys = n \<and> set ys \<subseteq> set rows"
proof -
  let ?ys = "map (\<lambda>i. rows ! i) (take n (perm (length rows)))"
  from assms(1) have p: "distinct (perm (length rows)) \<and> set (perm (length rows)) = {0..<length rows}"
    by blast
  have "length (perm (length rows)) = length rows"
    using p by (intro perm_length) simp_all
  then have len: "length ?ys = n" using assms(2) by simp
  have "set (take n (perm (length rows))) \<subseteq> {0..<length rows}"
    using p set_take_subset [of n "perm (length rows)"] by simp
  then have sub: "set ?ys \<subseteq> set rows" by auto
  from assms(2) have "sample_rows perm rows n = Inr ?ys" by (simp add: sample_rows_def)
  with len sub show ?thesis by blast
qed

text \<open>
  C2, amended. With a generator that returns permutations of the row positions: for a
  selected state with at least 100 joined rows the scatter sample is drawn from the
  filtered rows and has exactly 100 of them, which is min(100, number of filtered
  rows), and every scatter plot the callback returns has 100 points; for a selected
  state with fewer than 100 joined rows the sample call raises and the callback
  returns no chart.
\<close>

theorem scatter_sample_size:
  assumes "\<forall>k. distinct (perm k) \<and> set (perm k) = {0..<k}"
  shows "(100 \<le> length (filtered_rows (df st) selected_state) \<longrightarrow>
            (\<exists>ys. scatter_sample perm (df st) selected_state = Inr ys \<and> length ys = 100
               \<and> set ys \<subseteq> set (filtered_rows (df st) selected_state)))
       \<and> (length (filtered_rows (df st) selected_state) < 100 \<longrightarrow>
            scatter_sample perm (df st) selected_state
              = Inl ValueError_sample_larger_than_population
          \<and> fst (update_graph perm st selected_state)
              = Inl ValueError_sample_larger_than_population)
       \<and> (\<forall>line scatter heatmap.
            fst (update_graph perm st selected_state) = Inr (line, scatter, heatmap) \<longrightarrow>
              length (sp_points scatter) = 100)"
proof (intro conjI impI allI)
  assume "100 \<le> length (filtered_rows (df st) selected_state)"
  from sample_rows_size [OF assms this]
  show "\<exists>ys. scatter_sample perm (df st) selected_state = Inr ys \<and> length ys = 100
               \<and> set ys \<subseteq> set (filtered_rows (df st) selected_state)"
    by (simp add: scatter_sample_def)
next
  assume "length (filtered_rows (df st) selected_state) < 100"
  then show s: "scatter_sample perm (df st) selected_state
              = Inl ValueError_sample_larger_than_population"
    by (simp add: scatter_sample_def sample_rows_def)
  then show "fst (update_graph perm st selected_state)
              = Inl ValueError_sample_larger_than_population"
    by (simp add: update_graph_def Let_def)
next
  fix line scatter heatmap
  assume r: "fst (update_graph perm st selected_state) = Inr (line, scatter, heatmap)"
  then obtain sampled where s: "scatter_sample perm (df st) selected_state = Inr sampled"
    and p: "sp_points scatter = map (\<lambda>r. (cases_new r, healthcare_capacity r)) sampled"
    by (auto simp: update_graph_def Let_def split: sum.splits)
  from s have "100 \<le> length (filtered_rows (df st) selected_state)"
    by (auto simp: scatter_sample_def sample_rows_def split: if_splits)
  from sample_rows_size [OF assms this] s have "length sampled = 100"
    by (auto simp: scatter_sample_def)
  with p show "length (sp_points scatter) = 100" by simp
qed

lemma sample_rows_replicate:
  "n \<le> m \<Longrightarrow> sample_rows (upt 0) (replicate m x) n = Inr (replicate n x)"
  by (auto simp: sample_rows_def intro!: nth_equalityI)

lemma busy_filtered:
  "filtered_rows (df busy_state) ''Selangor'' = replicate 100 selangor_row"
  "filtered_rows (df busy_state) ''Penang'' = replicate 100 penang_row"
  by (simp_all add: filtered_rows_def busy_state_def filter_replicate
      selangor_row_def penang_row_def)

lemma busy_sample:
  "scatter_sample (upt 0) (df busy_state) ''Selangor'' = Inr (replicate 100 selangor_row)"
  "scatter_sample (upt 0) (df busy_state) ''Penang'' = Inr (replicate 100 penang_row)"
  by (simp_all add: scatter_sample_def busy_filtered sample_rows_replicate)

lemma busy_pivot:
  "pivot (heatmap_data busy_state)
     = Inr \<lparr>g_index = [2021], g_columns = [3], g_values = [[Fin (105 / 2)]]\<rparr>"
  by (simp add: busy_state_def pivot_def)

lemma busy_update_graph:
  "fst (update_graph (upt 0) busy_state ''Selangor'') =
     Inr (\<lparr>lc_date = replicate 100 (Date 2021 3 1), lc_cases_new = replicate 100 7,
           lc_healthcare_capacity = replicate 100 (Fin 25)\<rparr>,
          \<lparr>sp_points = replicate 100 (7, Fin 25),
           sp_title = ''Healthcare Capacity vs New Cases in Selangor''\<rparr>,
          \<lparr>g_index = [2021], g_columns = [3], g_values = [[Fin (105 / 2)]]\<rparr>)"
  "fst (update_graph (upt 0) busy_state ''Penang'') =
     Inr (\<lparr>lc_date = replicate 100 (Date 2021 3 1), lc_cases_new = replicate 100 3,
           lc_healthcare_capacity = replicate 100 (Fin 80)\<rparr>,
          \<lparr>sp_points = replicate 100 (3, Fin 80),
           sp_title = ''Healthcare Capacity vs New Cases in Penang''\<rparr>,
          \<lparr>g_index = [2021], g_columns = [3], g_values = [[Fin (105 / 2)]]\<rparr>)"
  by (simp_all add: update_graph_def Let_def busy_filtered busy_sample busy_pivot
      selangor_row_def penang_row_def)

theorem scatter_sample_size_witness:
  "distinct (upt 0 7) \<and> set (upt 0 7) = {0..<7}
   \<and> length (filtered_rows (df busy_state) ''Selangor'') = 100
   \<and> scatter_sample (upt 0) (df busy_state) ''Selangor'' = Inr (replicate 100 selangor_row)
   \<and> length (replicate 100 selangor_row) = 100
   \<and> length (filtered_rows (df three_row_state) ''Perlis'') = 3
   \<and> scatter_sample (upt 0) (df three_row_state) ''Perlis''
       = Inl ValueError_sample_larger_than_population"
proof -
  have p: "\<forall>k. distinct (upt 0 k) \<and> set (upt 0 k) = {0..<k}" by simp
  note t = scatter_sample_size [OF p]
  have a: "length (filtered_rows (df busy_state) ''Selangor'') = 100"
    by (simp add: busy_filtered)
  have b: "length (filtered_rows (df three_row_state) ''Perlis'') = 3"
    by (simp add: filtered_rows_def three_row_state_def)
  from t [of three_row_state "''Perlis''"] b
  have c: "scatter_sample (upt 0) (df three_row_state) ''Perlis''
       = Inl ValueError_sample_larger_than_population" by simp
  from p have d: "distinct (upt 0 7) \<and> set (upt 0 7) = {0..<7}" by blast
  from d a busy_sample(1) b c show ?thesis by simp
qed

text \<open>
  On a table with three rows for the selected state the sample is not the three rows:
  the sample call raises, and so does the callback.
\<close>

theorem scatter_sample_three_rows_counterexample:
  "length (filtered_rows (df three_row_state) ''Perlis'') = 3
   \<and> scatter_sample (upt 0) (df three_row_state) ''Perlis''
       = Inl ValueError_sample_larger_than_population
   \<and> fst (update_graph (upt 0) three_row_state ''Perlis'')
       = Inl ValueError_sample_larger_than_population"
  by (simp add: update_graph_def Let_def scatter_sample_def sample_rows_def
      filtered_rows_def three_row_state_def)

section \<open>The heatmap\<close>

text \<open>
  C8. For any two selected states for which the callback returns its charts, the two
  heatmaps are the same figure: the pivot of the stored monthly table, in which the
  selection does not occur.
\<close>

theorem heatmap_independent_of_selection:
  assumes "fst (update_graph perm st s1) = Inr (line1, scatter1, heatmap1)"
    and "fst (update_graph perm st s2) = Inr (line2, scatter2, heatmap2)"
  shows "heatmap1 = heatmap2 \<and> pivot (heatmap_data st) = Inr heatmap1"
  using assms by (auto simp: update_graph_def Let_def split: sum.splits)

theorem heatmap_independent_of_selection_witness:
  "fst (update_graph (upt 0) busy_state ''Selangor'') =
     Inr (\<lparr>lc_date = replicate 100 (Date 2021 3 1), lc_cases_new = replicate 100 7,
           lc_healthcare_capacity = replicate 100 (Fin 25)\<rparr>,
          \<lparr>sp_points = replicate 100 (7, Fin 25),
           sp_title = ''Healthcare Capacity vs New Cases in Selangor''\<rparr>,
          \<lparr>g_index = [2021], g_columns = [3], g_values = [[Fin (105 / 2)]]\<rparr>)
   \<and> fst (update_graph (upt 0) busy_state ''Penang'') =
     Inr (\<lparr>lc_date = replicate 100 (Date 2021 3 1), lc_cases_new = replicate 100 3,
           lc_healthcare_capacity = replicate 100 (Fin 80)\<rparr>,
          \<lparr>sp_points = replicate 100 (3, Fin 80),
           sp_title = ''Healthcare Capacity vs New Cases in Penang''\<rparr>,
          \<lparr>g_index = [2021], g_columns = [3], g_values = [[Fin (105 / 2)]]\<rparr>)
   \<and> pivot (heatmap_data busy_state)
       = Inr \<lparr>g_index = [2021], g_columns = [3], g_values = [[Fin (105 / 2)]]\<rparr>"
proof -
  from heatmap_independent_of_selection [OF busy_update_graph(1) busy_update_graph(2)]
  have "pivot (heatmap_data busy_state)
       = Inr \<lparr>g_index = [2021], g_columns = [3], g_values = [[Fin (105 / 2)]]\<rparr>"
    by blast
  with busy_update_graph show ?thesis by (intro conjI)
qed

section \<open>Records without beds\<close>

lemma fless_neg_inf: "\<not> fless b NInf"
  by (cases b) auto

lemma fill_neg_inf_nan: "isna v \<Longrightarrow> fill_neg_inf v = NInf"
  by (cases v) auto

lemma amax_loop_fill:
  "amax_loop (map fill_neg_inf xs) b = amax_loop (filter (\<lambda>v. \<not> isna v) xs) b"
  by (induction xs arbitrary: b) (auto simp: fless_neg_inf fill_neg_inf_id fill_neg_inf_nan)

lemma amax_loop_neg_inf:
  assumes "xs \<noteq> []" and "\<forall>y\<in>set xs. \<not> isna y"
  shows "amax_loop xs NInf = amax_loop (tl xs) (hd xs)"
proof (cases xs)
  case Nil
  with assms show ?thesis by simp
next
  case (Cons x rest)
  with assms have "\<not> isna x" by simp
  then have "\<not> fless NInf x \<Longrightarrow> x = NInf" by (cases x) auto
  with Cons show ?thesis by auto
qed

lemma series_max_skipna:
  "series_max col = series_max (filter (\<lambda>v. \<not> isna v) col)"
proof (cases "list_all isna col")
  case True
  then have "filter (\<lambda>v. \<not> isna v) col = []"
    by (simp add: filter_empty_conv list_all_iff)
  with True show ?thesis by (simp add: series_max_def)
next
  case False
  let ?F = "filter (\<lambda>v. \<not> isna v)"
  from False have ne: "?F col \<noteq> []" by (auto simp: filter_empty_conv list_all_iff)
  from False have nF: "\<not> list_all isna (?F col)" by (auto simp: list_all_iff)
  have idF: "map fill_neg_inf (?F col) = ?F col"
    by (induction col) (auto simp: fill_neg_inf_id)
  have r: "series_max (?F col) = amax_loop (tl (?F col)) (hd (?F col))"
    using series_max_amax [OF nF] by (simp add: idF)
  have l: "series_max col = amax_loop (tl (map fill_neg_inf col)) (hd (map fill_neg_inf col))"
    using False by (rule series_max_amax)
  from False obtain v rest where col: "col = v # rest" by (cases col) auto
  show ?thesis
  proof (cases "isna v")
    case True
    then have fv: "fill_neg_inf v = NInf" by (cases v) auto
    from True col have F: "?F col = ?F rest" by simp
    have "amax_loop (map fill_neg_inf rest) NInf = amax_loop (?F rest) NInf"
      by (rule amax_loop_fill)
    also have "\<dots> = amax_loop (tl (?F rest)) (hd (?F rest))"
      using ne F by (intro amax_loop_neg_inf) auto
    finally show ?thesis using l r col fv F by simp
  next
    case False
    then have "fill_neg_inf v = v" by (rule fill_neg_inf_id)
    with False col l r show ?thesis by (simp add: amax_loop_fill)
  qed
qed

lemma group_mean_skipna: "group_mean vals = group_mean (filter (\<lambda>v. \<not> isna v) vals)"
  by (simp add: group_mean_eq)

lemma monthly_averages_not_nan:
  "g \<in> set (monthly_averages d) \<Longrightarrow> \<not> isna (m_capacity g)"
  by (auto simp: monthly_averages_def fillna0_not_nan)

text \<open>
  C1, amended. For every joined record whose \<^verbatim>\<open>beds\<close> field is 0 the capacity ratio
  is computed without an exception: it is NaN when \<^verbatim>\<open>admitted_total\<close> is 0 as well,
  and plus infinity otherwise. The ratios that are NaN are skipped by the summary
  maximum and by the group means, a group whose ratios are all NaN gets the monthly
  average 0, and no monthly average is NaN.
\<close>

theorem zero_beds_ratio:
  assumes "r \<in> set (joined_table cases hosp)" and "beds r = 0"
  shows "healthcare_capacity r = (if admitted_total r = 0 then NaN else PInf)
       \<and> series_max (map healthcare_capacity (joined_table cases hosp))
           = series_max (filter (\<lambda>v. \<not> isna v)
               (map healthcare_capacity (joined_table cases hosp)))
       \<and> (\<forall>vals. group_mean vals = group_mean (filter (\<lambda>v. \<not> isna v) vals))
       \<and> (\<forall>vals. list_all isna vals \<longrightarrow> fillna0 (group_mean vals) = Fin 0)
       \<and> (\<forall>g\<in>set (monthly_averages (joined_table cases hosp)). \<not> isna (m_capacity g))"
proof (intro conjI allI ballI impI)
  show "healthcare_capacity r = (if admitted_total r = 0 then NaN else PInf)"
    using assms by (simp add: joined_table_capacity true_div_def)
  show "series_max (map healthcare_capacity (joined_table cases hosp))
           = series_max (filter (\<lambda>v. \<not> isna v)
               (map healthcare_capacity (joined_table cases hosp)))"
    by (rule series_max_skipna)
next
  fix vals
  show "group_mean vals = group_mean (filter (\<lambda>v. \<not> isna v) vals)"
    by (rule group_mean_skipna)
next
  fix vals assume "list_all isna vals"
  then have "mean_or_zero vals = Fin 0" by (rule mean_or_zero_all_nan)
  then show "fillna0 (group_mean vals) = Fin 0"
    by (simp add: mean_or_zero_def group_mean_eq)
next
  fix g assume "g \<in> set (monthly_averages (joined_table cases hosp))"
  then show "\<not> isna (m_capacity g)" by (rule monthly_averages_not_nan)
qed

lemma closed_ward_joined_table:
  "joined_table closed_ward_cases closed_ward_hospital = closed_ward_df"
  by (simp add: joined_table_def merge_def join_rows_def add_columns_def true_div_def
      closed_ward_cases_def closed_ward_hospital_def closed_ward_df_def)

lemma closed_ward_startup:
  "startup closed_ward_cases closed_ward_hospital =
     Inr \<lparr>df = closed_ward_df, max_capacity_state = ''Kedah'',
          max_capacity_value = Fin 50, beds_utilized_by_covid = Fin 20,
          heatmap_data = [\<lparr>m_year = 2021, m_month = 3, m_capacity = Fin 50\<rparr>,
                          \<lparr>m_year = 2021, m_month = 4, m_capacity = Fin 0\<rparr>]\<rparr>"
  by (simp add: startup_def closed_ward_joined_table)
     (simp add: closed_ward_df_def idxmax_def series_max_def covid_bed_share_def
       series_sum_def true_div_def monthly_averages_def groupby_mean_def group_keys_def
       group_mean_def)

theorem zero_beds_ratio_witness:
  "closed_ward_df ! 0 \<in> set (joined_table closed_ward_cases closed_ward_hospital)
   \<and> beds (closed_ward_df ! 0) = 0 \<and> admitted_total (closed_ward_df ! 0) = 0
   \<and> healthcare_capacity (closed_ward_df ! 0) = NaN
   \<and> series_max (map healthcare_capacity (joined_table closed_ward_cases closed_ward_hospital))
       = Fin 50
   \<and> monthly_averages (joined_table closed_ward_cases closed_ward_hospital)
       = [\<lparr>m_year = 2021, m_month = 3, m_capacity = Fin 50\<rparr>,
          \<lparr>m_year = 2021, m_month = 4, m_capacity = Fin 0\<rparr>]"
proof -
  have a: "closed_ward_df ! 0 \<in> set (joined_table closed_ward_cases closed_ward_hospital)"
    by (simp add: closed_ward_joined_table) (simp add: closed_ward_df_def)
  have b: "beds (closed_ward_df ! 0) = 0" by (simp add: closed_ward_df_def)
  have c: "admitted_total (closed_ward_df ! 0) = 0" by (simp add: closed_ward_df_def)
  note t = zero_beds_ratio [OF a b]
  from t c have d: "healthcare_capacity (closed_ward_df ! 0) = NaN" by simp
  from t have "series_max (map healthcare_capacity
        (joined_table closed_ward_cases closed_ward_hospital))
      = series_max (filter (\<lambda>v. \<not> isna v)
          (map healthcare_capacity (joined_table closed_ward_cases closed_ward_hospital)))"
    by blast
  also have "\<dots> = Fin 50"
    by (simp add: closed_ward_joined_table) (simp add: closed_ward_df_def series_max_def)
  finally have e: "series_max (map healthcare_capacity
        (joined_table closed_ward_cases closed_ward_hospital)) = Fin 50" .
  have f: "monthly_averages (joined_table closed_ward_cases closed_ward_hospital)
       = [\<lparr>m_year = 2021, m_month = 3, m_capacity = Fin 50\<rparr>,
          \<lparr>m_year = 2021, m_month = 4, m_capacity = Fin 0\<rparr>]"
    by (simp add: closed_ward_joined_table)
       (simp add: closed_ward_df_def monthly_averages_def groupby_mean_def group_keys_def
         group_mean_def)
  from a b c d e f show ?thesis by (intro conjI)
qed

text \<open>
  The literal row with \<^verbatim>\<open>beds\<close> 0 and \<^verbatim>\<open>admitted_total\<close> 5: its ratio is plus
  infinity, neither 0 nor left out, and it is the summary maximum and the monthly
  average of its month.
\<close>

theorem zero_beds_counterexample:
  "startup
     [\<lparr>c_date = Date 2021 3 1, c_state = ''Perlis'', c_cases_new = 7\<rparr>]
     [\<lparr>h_date = Date 2021 3 1, h_state = ''Perlis'', h_beds = 0, h_beds_covid = 0,
       h_admitted_total = 5\<rparr>]
   = Inr \<lparr>df = [\<lparr>date = Date 2021 3 1, state = ''Perlis'', cases_new = 7, beds = 0,
                 beds_covid = 0, admitted_total = 5, year = 2021, month = 3,
                 healthcare_capacity = PInf\<rparr>],
          max_capacity_state = ''Perlis'',
          max_capacity_value = PInf,
          beds_utilized_by_covid = NaN,
          heatmap_data = [\<lparr>m_year = 2021, m_month = 3, m_capacity = PInf\<rparr>]\<rparr>"
  by (simp add: startup_def joined_table_def merge_def join_rows_def add_columns_def
      true_div_def idxmax_def series_max_def covid_bed_share_def series_sum_def
      monthly_averages_def groupby_mean_def group_keys_def group_mean_def)

end
